theory Spec2Isabelle
  imports Complex_Main "HOL-Library.AList"
begin

section \<open>Python values and exceptions\<close>

text \<open>
  The values that flow through \<open>experiment_mab.py\<close> without being inspected (user ids,
  request parameters, entries of a variation's config) are Python objects. A dict is an
  association list in insertion order; \<open>AList.update\<close> is \<open>d[k] = v\<close> (replace in
  place, else append) and \<open>map_of\<close> is the lookup. Numbers are whole: a \<open>float\<close> or
  \<open>Decimal\<close> with a fractional part has no value here.
\<close>

datatype pyval =
    PyNone
  | PyInt int
  | PyStr string
  | PyList "pyval list"
  | PyDict "(string \<times> pyval) list"

type_synonym pydict = "(string \<times> pyval) list"

text \<open>
  Exceptions by class, each with its message. \<open>ClientError\<close> is botocore's; all of them
  are subclasses of \<open>Exception\<close>, so \<open>except Exception\<close> catches every one.
\<close>

datatype pyexn =
    PyException string
  | ClientError string
  | ValueError string
  | TypeError string
  | IndexError string
  | RuntimeError string

text \<open>Truth value of an object, as \<open>not user_id\<close> tests it.\<close>

fun truthy :: "pyval \<Rightarrow> bool" where
  "truthy PyNone = False"
| "truthy (PyInt n) = (n \<noteq> 0)"
| "truthy (PyStr s) = (s \<noteq> [])"
| "truthy (PyList xs) = (xs \<noteq> [])"
| "truthy (PyDict d) = (d \<noteq> [])"

subsection \<open>The builtin \<open>int()\<close>\<close>

text \<open>
  \<open>int(s)\<close> on a string strips surrounding whitespace, takes an optional sign and then
  decimal digits, where single underscores may stand between digits. Anything else is a
  \<open>ValueError\<close>. \<open>int(None)\<close>, \<open>int([...])\<close> and \<open>int({...})\<close> are a \<open>TypeError\<close>.
  Strings are ASCII; the limit that Python 3.11 puts on the number of digits is left out.
\<close>

definition is_space :: "char \<Rightarrow> bool" where
  "is_space c = (c \<in> set [CHR '' '', CHR 0x09, CHR 0x0A, CHR 0x0B, CHR 0x0C, CHR 0x0D,
                            CHR 0x1C, CHR 0x1D, CHR 0x1E, CHR 0x1F])"

definition is_digit :: "char \<Rightarrow> bool" where
  "is_digit c = (c \<in> set ''0123456789'')"

definition digit_value :: "char \<Rightarrow> nat" where
  "digit_value c = of_char c - 48"

definition strip :: "string \<Rightarrow> string" where
  "strip s = rev (dropWhile is_space (rev (dropWhile is_space s)))"

fun py_digits :: "nat \<Rightarrow> bool \<Rightarrow> string \<Rightarrow> nat option" where
  "py_digits acc prev [] = (if prev then Some acc else None)"
| "py_digits acc prev (c # cs) =
     (if is_digit c then py_digits (10 * acc + digit_value c) True cs
      else if c = CHR ''_'' \<and> prev \<and> cs \<noteq> [] \<and> is_digit (hd cs) then py_digits acc False cs
      else None)"

definition int_of_str :: "string \<Rightarrow> int option" where
  "int_of_str s =
     (case strip s of
        [] \<Rightarrow> None
      | c # cs \<Rightarrow>
          if c = CHR ''+'' then map_option int (py_digits 0 False cs)
          else if c = CHR ''-'' then map_option (\<lambda>n. - int n) (py_digits 0 False cs)
          else map_option int (py_digits 0 False (c # cs)))"

fun py_int :: "pyval \<Rightarrow> pyexn + int" where
  "py_int (PyInt n) = Inr n"
| "py_int (PyStr s) =
     (case int_of_str s of
        Some n \<Rightarrow> Inr n
      | None \<Rightarrow> Inl (ValueError ''invalid literal for int() with base 10''))"
| "py_int PyNone = Inl (TypeError ''int() argument must be a string, a bytes-like object or a real number'')"
| "py_int (PyList xs) = Inl (TypeError ''int() argument must be a string, a bytes-like object or a real number'')"
| "py_int (PyDict d) = Inl (TypeError ''int() argument must be a string, a bytes-like object or a real number'')"

text \<open>\<open>d.get(k, default)\<close>\<close>

definition dict_get :: "pydict \<Rightarrow> string \<Rightarrow> pyval \<Rightarrow> pyval" where
  "dict_get d k dflt = (case map_of d k of None \<Rightarrow> dflt | Some v \<Rightarrow> v)"

section \<open>numpy\<close>

text \<open>
  The arrays \<open>exposures\<close>, \<open>conversions\<close> and \<open>theta\<close> hold float64 numbers. They are
  modelled as lists of exact reals: a count of magnitude up to \<open>2^53\<close> is stored without
  rounding, and the model does not follow the rounding of larger ones (nor the
  \<open>OverflowError\<close> of one beyond the range of float64).

  \<open>np.random.beta(a, b)\<close> on two arrays of one length first checks that every entry of
  \<open>a\<close>, then every entry of \<open>b\<close>, is positive (\<open>ValueError\<close> otherwise) and then
  draws one number per position, left to right, from the global generator. The single
  draw is a parameter \<open>draw\<close>: it takes the generator's state and the two shape parameters
  and gives the sample and the next state.
\<close>

fun draw_all :: "('g \<Rightarrow> real \<Rightarrow> real \<Rightarrow> real \<times> 'g) \<Rightarrow> 'g \<Rightarrow> (real \<times> real) list \<Rightarrow> real list \<times> 'g" where
  "draw_all draw g [] = ([], g)"
| "draw_all draw g ((a, b) # ps) =
     (case draw g a b of (x, g1) \<Rightarrow>
        (case draw_all draw g1 ps of (xs, g2) \<Rightarrow> (x # xs, g2)))"

definition np_random_beta ::
    "('g \<Rightarrow> real \<Rightarrow> real \<Rightarrow> real \<times> 'g) \<Rightarrow> 'g \<Rightarrow> real list \<Rightarrow> real list \<Rightarrow> (pyexn + real list) \<times> 'g" where
  "np_random_beta draw g a b =
     (if list_ex (\<lambda>x. x \<le> 0) a then (Inl (ValueError ''a <= 0''), g)
      else if list_ex (\<lambda>x. x \<le> 0) b then (Inl (ValueError ''b <= 0''), g)
      else (case draw_all draw g (zip a b) of (theta, g') \<Rightarrow> (Inr theta, g')))"

text \<open>
  \<open>np.argmax\<close>: the index of the first occurrence of the largest entry; a
  \<open>ValueError\<close> on an empty array.
\<close>

fun argmax_from :: "nat \<Rightarrow> 'a::linorder \<Rightarrow> nat \<Rightarrow> 'a list \<Rightarrow> nat" where
  "argmax_from best bv i [] = best"
| "argmax_from best bv i (x # xs) =
     (if bv < x then argmax_from i x (Suc i) xs else argmax_from best bv (Suc i) xs)"

fun np_argmax :: "'a::linorder list \<Rightarrow> pyexn + nat" where
  "np_argmax [] = Inl (ValueError ''attempt to get argmax of an empty sequence'')"
| "np_argmax (x # xs) = Inr (argmax_from 0 x 1 xs)"

text \<open>
  \<open>round(x)\<close> of a float, as Python 3 does it: to the nearest integer, a tie going to
  the even neighbour.
\<close>

definition py_round :: "real \<Rightarrow> int" where
  "py_round x =
     (let f = \<lfloor>x\<rfloor>; d = x - of_int f
      in if d < 1 / 2 then f
         else if 1 / 2 < d then f + 1
         else if even f then f else f + 1)"

section \<open>The data of an experiment\<close>

text \<open>
  An item that a resolver returns is a mutable dict. Its entries are opaque to
  \<open>get_items\<close>, except for the key \<open>experiment\<close> that \<open>get_items\<close> writes: the dict
  \<open>item_experiment\<close> of the source, with its seven fixed keys, is the record
  \<open>item_experiment\<close>.
\<close>

text \<open>
  Modelled from the spec: \<open>_create_correlation_id\<close> is a method of the base class
  \<open>BuiltInExperiment\<close> (\<open>experimentation/experiment.py\<close>), which is not among the
  source files. The spec (4.3) describes its result as an opaque identifier derived from
  \<open>(user_id, variation_index, rank)\<close>, such that the tuple's identifier is
  distinguishable from that of any other item of the response. The identifier is
  therefore a token that holds the three components it is derived from.
\<close>

datatype correlation_id = CorrelationId pyval nat nat

definition create_correlation_id :: "pyval \<Rightarrow> nat \<Rightarrow> nat \<Rightarrow> correlation_id" where
  "create_correlation_id user_id variation_index rank = CorrelationId user_id variation_index rank"

record experiment_identity =
  ident_id :: string
  ident_feature :: string
  ident_name :: string
  ident_type :: string

record item_experiment =
  ie_id :: string
  ie_feature :: string
  ie_name :: string
  ie_type :: string
  variationIndex :: nat
  resultRank :: nat
  correlationId :: correlation_id

datatype item_value = Content pyval | Experiment item_experiment

type_synonym item = "(string \<times> item_value) list"

text \<open>
  Items are objects: the resolver returns a list of references, and \<open>item.update\<close>
  changes the object behind a reference. The store maps every address to the dict it
  holds; the same address may occur at several positions of a list. The store holds item
  objects only: a config dict of a variation is not at the same time an item.
\<close>

type_synonym addr = nat
type_synonym heap = "addr \<Rightarrow> item"

record resolve_params =
  rp_user_id :: pyval
  rp_product_id :: pyval
  rp_product_list :: pyval
  rp_num_results :: pyval
  rp_filter_values :: pyval
  rp_context :: pyval
  rp_promotion :: pyval

text \<open>
  A variation: its config dict and its resolver. \<open>resolver.get_items\<close> is an external
  collaborator: it may raise, and otherwise returns the references of its items together
  with the store that holds them.
\<close>

record variation =
  config :: pydict
  resolver :: "resolve_params \<Rightarrow> heap \<Rightarrow> pyexn + (addr list \<times> heap)"

record telemetry_snapshot =
  snap_experiment_id :: string
  snap_timestamp :: string
  snap_exposures :: "real list"
  snap_conversions :: "real list"
  snap_theta :: "real list"

record exposure_event =
  event_type :: string
  event_timestamp :: int
  attr_user_id :: pyval
  attr_experiment :: experiment_identity
  attr_variation_index :: nat
  attr_variation :: pydict

text \<open>The calls that leave the class, in the order they are made.\<close>

datatype call =
    PutItem telemetry_snapshot
  | IncrementExposureCount nat
  | ResolverGetItems nat resolve_params
  | LogExposure exposure_event

text \<open>The lines written to the module's logger.\<close>

datatype log_record =
    DebugAssigned pyval nat
  | DebugLoggedData string
  | ErrorFailedToLog pyexn
  | ErrorUnexpected pyexn
  | ErrorLoggingData pyexn

text \<open>
  What the surroundings decide during one call: the random generator's single Beta draw,
  the outcome of \<open>log_table.put_item\<close> (\<open>None\<close> when it succeeds, the exception
  otherwise), \<open>datetime.utcnow().isoformat()\<close> and \<open>datetime.now().timestamp()\<close>.
\<close>

record 'g collaborators =
  beta_draw :: "'g \<Rightarrow> real \<Rightarrow> real \<Rightarrow> real \<times> 'g"
  put_item :: "telemetry_snapshot \<Rightarrow> pyexn option"
  utcnow_iso :: string
  now_posix :: real

text \<open>
  The state a call can change: the experiment object (\<open>self\<close>) with its variations, the
  store of item objects, the random generator, the table \<open>experiment_logs\<close>, and the
  record of calls and log lines.
\<close>

record 'g world =
  exp_id :: string
  exp_feature :: string
  exp_name :: string
  exp_type :: string
  variations :: "variation list"
  heap :: heap
  rng :: 'g
  log_table :: "telemetry_snapshot list"
  calls :: "call list"
  logged :: "log_record list"

definition identity_of :: "'g world \<Rightarrow> experiment_identity" where
  "identity_of w =
     \<lparr>ident_id = exp_id w, ident_feature = exp_feature w,
      ident_name = exp_name w, ident_type = exp_type w\<rparr>"

section \<open>\<open>_select_variation_index\<close>\<close>

text \<open>\<open>int(variation.config.get(key, 0))\<close>\<close>

definition count_of :: "pydict \<Rightarrow> string \<Rightarrow> pyexn + int" where
  "count_of cfg key = py_int (dict_get cfg key (PyInt 0))"

text \<open>
  The loop over \<open>range(variation_count)\<close>: for each variation in turn, first the
  exposures, then the conversions are read and stored into the arrays; the first
  \<open>int()\<close> that raises ends the loop.
\<close>

fun read_counts :: "variation list \<Rightarrow> pyexn + (real list \<times> real list)" where
  "read_counts [] = Inr ([], [])"
| "read_counts (v # vs) =
     (case count_of (config v) ''exposures'' of
        Inl e \<Rightarrow> Inl e
      | Inr ex \<Rightarrow>
          (case count_of (config v) ''conversions'' of
             Inl e \<Rightarrow> Inl e
           | Inr cv \<Rightarrow>
               (case read_counts vs of
                  Inl e \<Rightarrow> Inl e
                | Inr (exs, cvs) \<Rightarrow> Inr (of_int ex # exs, of_int cv # cvs))))"

text \<open>
  \<open>_log_experiment_data\<close>: the write to the table is tried once; a \<open>ClientError\<close> and
  any other \<open>Exception\<close> are each caught and logged.
\<close>

definition log_experiment_data ::
    "'g collaborators \<Rightarrow> real list \<Rightarrow> real list \<Rightarrow> real list \<Rightarrow> 'g world \<Rightarrow> (pyexn + unit) \<times> 'g world" where
  "log_experiment_data env exposures conversions theta w =
     (let timestamp = utcnow_iso env;
          item = \<lparr>snap_experiment_id = exp_id w, snap_timestamp = timestamp,
                  snap_exposures = exposures, snap_conversions = conversions,
                  snap_theta = theta\<rparr>;
          w1 = w\<lparr>calls := calls w @ [PutItem item]\<rparr>
      in case put_item env item of
           None \<Rightarrow>
             (Inr (), w1\<lparr>log_table := log_table w1 @ [item],
                         logged := logged w1 @ [DebugLoggedData timestamp]\<rparr>)
         | Some (ClientError m) \<Rightarrow>
             (Inr (), w1\<lparr>logged := logged w1 @ [ErrorFailedToLog (ClientError m)]\<rparr>)
         | Some e \<Rightarrow>
             (Inr (), w1\<lparr>logged := logged w1 @ [ErrorUnexpected e]\<rparr>))"

definition select_variation_index :: "'g collaborators \<Rightarrow> 'g world \<Rightarrow> (pyexn + nat) \<times> 'g world" where
  "select_variation_index env w =
     (case read_counts (variations w) of
        Inl e \<Rightarrow> (Inl e, w)
      | Inr (exposures, conversions) \<Rightarrow>
          (case np_random_beta (beta_draw env) (rng w)
                  (map (\<lambda>c. c + 1) conversions) (map (\<lambda>x. x + 1) exposures) of
             (Inl e, g) \<Rightarrow> (Inl e, w\<lparr>rng := g\<rparr>)
           | (Inr theta, g) \<Rightarrow>
               (let w1 = w\<lparr>rng := g\<rparr>;
                    w2 = (case log_experiment_data env exposures conversions theta w1 of
                            (Inl e, w') \<Rightarrow> w'\<lparr>logged := logged w' @ [ErrorLoggingData e]\<rparr>
                          | (Inr u, w') \<Rightarrow> w')
                in (np_argmax theta, w2))))"

section \<open>\<open>get_items\<close>\<close>

text \<open>
  Modelled from the spec: \<open>_increment_exposure_count\<close> is a method of the base class
  \<open>BuiltInExperiment\<close> (\<open>experimentation/experiment.py\<close>), which is not among the
  source files. The spec (section 3) says that a variation's config is the single source
  of truth for its counts and that incrementing exposures means writing back into this
  config; section 8 says that the counter increases by exactly 1. The count of a
  variation is what \<open>_select_variation_index\<close> reads: \<open>int(config.get('exposures', 0))\<close>.
\<close>

definition exposure_count :: "variation \<Rightarrow> int" where
  "exposure_count v = (case count_of (config v) ''exposures'' of Inr n \<Rightarrow> n | Inl e \<Rightarrow> 0)"

definition increment_exposure_count :: "nat \<Rightarrow> variation list \<Rightarrow> variation list" where
  "increment_exposure_count i vs =
     (if i < length vs
      then vs[i := (vs ! i)\<lparr>config :=
                     AList.update ''exposures'' (PyInt (exposure_count (vs ! i) + 1)) (config (vs ! i))\<rparr>]
      else vs)"

text \<open>The dict \<open>item_experiment\<close> built for the item at \<open>rank\<close>.\<close>

definition item_experiment_of :: "experiment_identity \<Rightarrow> pyval \<Rightarrow> nat \<Rightarrow> nat \<Rightarrow> item_experiment" where
  "item_experiment_of ident user_id variation_idx rank =
     \<lparr>ie_id = ident_id ident, ie_feature = ident_feature ident,
      ie_name = ident_name ident, ie_type = ident_type ident,
      variationIndex = variation_idx, resultRank = rank,
      correlationId = create_correlation_id user_id variation_idx rank\<rparr>"

text \<open>
  The loop \<open>for item in items\<close>: \<open>item.update({'experiment': item_experiment})\<close> on the
  object behind each reference in turn, the rank counting up from the given one.
\<close>

fun annotate :: "experiment_identity \<Rightarrow> pyval \<Rightarrow> nat \<Rightarrow> nat \<Rightarrow> addr list \<Rightarrow> heap \<Rightarrow> heap" where
  "annotate ident user_id variation_idx rank [] h = h"
| "annotate ident user_id variation_idx rank (a # as) h =
     annotate ident user_id variation_idx (Suc rank) as
       (h(a := AList.update ''experiment''
                 (Experiment (item_experiment_of ident user_id variation_idx rank)) (h a)))"

text \<open>
  The event dict. A \<open>datetime\<close> is given by its \<open>timestamp()\<close>, the seconds since the
  epoch; the product with 1000 is taken exactly.
\<close>

definition exposure_event_of ::
    "experiment_identity \<Rightarrow> pyval \<Rightarrow> nat \<Rightarrow> pydict \<Rightarrow> real \<Rightarrow> exposure_event" where
  "exposure_event_of ident user_id variation_idx cfg ts =
     \<lparr>event_type = ''Experiment Exposure'',
      event_timestamp = py_round (ts * 1000),
      attr_user_id = user_id,
      attr_experiment = ident,
      attr_variation_index = variation_idx,
      attr_variation = cfg\<rparr>"

text \<open>
  \<open>get_items\<close>. The tracker, when given, is its method \<open>log_exposure\<close>: \<open>None\<close> when
  it returns, the exception when it raises. The result is the exception that leaves
  \<open>get_items\<close> or the list \<open>items\<close> that is returned, with the state as it is then.
\<close>

definition get_items ::
    "'g collaborators \<Rightarrow> pyval \<Rightarrow> pyval \<Rightarrow> pyval \<Rightarrow> pyval \<Rightarrow> (exposure_event \<Rightarrow> pyexn option) option
      \<Rightarrow> pyval \<Rightarrow> pyval \<Rightarrow> real option \<Rightarrow> pyval \<Rightarrow> 'g world \<Rightarrow> (pyexn + addr list) \<times> 'g world" where
  "get_items env user_id current_item_id item_list num_results tracker filter_values context
       timestamp promotion w =
     (if \<not> truthy user_id then (Inl (PyException ''user_id is required''), w)
      else if length (variations w) < 2
      then (Inl (PyException (''Experiment '' @ exp_id w @ '' does not have 2 or more variations'')), w)
      else
        (case select_variation_index env w of
           (Inl e, w1) \<Rightarrow> (Inl e, w1)
         | (Inr variation_idx, w1) \<Rightarrow>
             (let w2 = w1\<lparr>logged := logged w1 @ [DebugAssigned user_id variation_idx]\<rparr>;
                  w3 = w2\<lparr>variations := increment_exposure_count variation_idx (variations w2),
                          calls := calls w2 @ [IncrementExposureCount variation_idx]\<rparr>
              in if \<not> variation_idx < length (variations w3)
                 then (Inl (IndexError ''list index out of range''), w3)
                 else
                   (let variation = variations w3 ! variation_idx;
                        resolve_params =
                          \<lparr>rp_user_id = user_id, rp_product_id = current_item_id,
                           rp_product_list = item_list, rp_num_results = num_results,
                           rp_filter_values = filter_values, rp_context = context,
                           rp_promotion = promotion\<rparr>;
                        w4 = w3\<lparr>calls := calls w3 @ [ResolverGetItems variation_idx resolve_params]\<rparr>
                    in case resolver variation resolve_params (heap w4) of
                         Inl e \<Rightarrow> (Inl e, w4)
                       | Inr (items, h) \<Rightarrow>
                           (let w5 = w4\<lparr>heap := annotate (identity_of w4) user_id variation_idx 1 items h\<rparr>
                            in case tracker of
                                 None \<Rightarrow> (Inr items, w5)
                               | Some log_exposure \<Rightarrow>
                                   (let ts = (case timestamp of None \<Rightarrow> now_posix env | Some t \<Rightarrow> t);
                                        event = exposure_event_of (identity_of w5) user_id variation_idx
                                                  (config variation) ts;
                                        w6 = w5\<lparr>calls := calls w5 @ [LogExposure event]\<rparr>
                                    in case log_exposure event of
                                         Some e \<Rightarrow> (Inl e, w6)
                                       | None \<Rightarrow> (Inr items, w6)))))))"

section \<open>A concrete experiment\<close>

text \<open>
  The scenario of the spec's section 8: two variations, A with 10 exposures and 9
  conversions, B with 10 exposures and 1 conversion, a resolver that returns the three
  items x, y and z, and the user \<open>u1\<close>. The generator is replaced by a fixed one that
  returns the mean \<open>a / (a + b)\<close> of the distribution it is asked to sample.
\<close>

definition mean_draw :: "unit \<Rightarrow> real \<Rightarrow> real \<Rightarrow> real \<times> unit" where
  "mean_draw g a b = (a / (a + b), g)"

definition demo_env :: "unit collaborators" where
  "demo_env =
     \<lparr>beta_draw = mean_draw, put_item = (\<lambda>s. None),
      utcnow_iso = ''2024-01-01T00:00:00'', now_posix = 1704067200\<rparr>"

definition demo_heap :: heap where
  "demo_heap =
     (\<lambda>a. [])(0 := [(''itemId'', Content (PyStr ''x''))],
              1 := [(''itemId'', Content (PyStr ''y''))],
              2 := [(''itemId'', Content (PyStr ''z''))])"

definition demo_resolver :: "resolve_params \<Rightarrow> heap \<Rightarrow> pyexn + (addr list \<times> heap)" where
  "demo_resolver p h = Inr ([0, 1, 2], h)"

definition demo_variations :: "variation list" where
  "demo_variations =
     [\<lparr>config = [(''exposures'', PyInt 10), (''conversions'', PyInt 9)], resolver = demo_resolver\<rparr>,
      \<lparr>config = [(''exposures'', PyInt 10), (''conversions'', PyInt 1)], resolver = demo_resolver\<rparr>]"

definition demo_world :: "unit world" where
  "demo_world =
     \<lparr>exp_id = ''exp-1'', exp_feature = ''home_product_recs'', exp_name = ''mab-demo'',
      exp_type = ''mab'', variations = demo_variations, heap = demo_heap, rng = (),
      log_table = [], calls = [], logged = []\<rparr>"

text \<open>The call \<open>get_items(user_id='u1', num_results=3)\<close> of that scenario.\<close>

definition demo_call ::
    "(exposure_event \<Rightarrow> pyexn option) option \<Rightarrow> unit world \<Rightarrow> (pyexn + addr list) \<times> unit world" where
  "demo_call tracker w =
     get_items demo_env (PyStr ''u1'') PyNone PyNone (PyInt 3) tracker PyNone PyNone None PyNone w"

text \<open>A tracker that accepts every event, and one whose \<open>log_exposure\<close> raises.\<close>

definition accepting_tracker :: "exposure_event \<Rightarrow> pyexn option" where
  "accepting_tracker event = None"

definition failing_tracker :: "exposure_event \<Rightarrow> pyexn option" where
  "failing_tracker event = Some (RuntimeError ''tracker unavailable'')"



text \<open>A resolver that returns the same item object at both positions of its list.\<close>

definition aliasing_resolver :: "resolve_params \<Rightarrow> heap \<Rightarrow> pyexn + (addr list \<times> heap)" where
  "aliasing_resolver p h = Inr ([0, 0], h)"

definition aliasing_world :: "unit world" where
  "aliasing_world =
     demo_world\<lparr>variations := map (\<lambda>v. v\<lparr>resolver := aliasing_resolver\<rparr>) demo_variations\<rparr>"

text \<open>A resolver that raises.\<close>

definition failing_resolver :: "resolve_params \<Rightarrow> heap \<Rightarrow> pyexn + (addr list \<times> heap)" where
  "failing_resolver p h = Inl (RuntimeError ''resolver unavailable'')"

definition unresolved_world :: "unit world" where
  "unresolved_world =
     demo_world\<lparr>variations := map (\<lambda>v. v\<lparr>resolver := failing_resolver\<rparr>) demo_variations\<rparr>"

section \<open>Predicates used in the statements\<close>


text \<open>The stamp under the key \<open>experiment\<close> of an item, if it holds one.\<close>

definition experiment_of :: "item \<Rightarrow> item_experiment option" where
  "experiment_of it =
     (case map_of it ''experiment'' of Some (Experiment e) \<Rightarrow> Some e | Some (Content c) \<Rightarrow> None | None \<Rightarrow> None)"

text \<open>The keys of a dict.\<close>

definition keys :: "item \<Rightarrow> string set" where
  "keys it = fst ` set it"

section \<open>Auxiliary facts\<close>

lemma argmax_from_inv:
  fixes pre xs :: "'a::linorder list"
  assumes "best < length pre" "bv = pre ! best"
    and "\<forall>j<length pre. pre ! j \<le> bv" "\<forall>j<best. pre ! j < bv"
  shows "argmax_from best bv (length pre) xs < length (pre @ xs) \<and>
         (\<forall>j<length (pre @ xs). (pre @ xs) ! j \<le> (pre @ xs) ! argmax_from best bv (length pre) xs) \<and>
         (\<forall>j<argmax_from best bv (length pre) xs. (pre @ xs) ! j < (pre @ xs) ! argmax_from best bv (length pre) xs)"
  using assms
proof (induction xs arbitrary: pre best bv)
  case Nil
  then show ?case by simp
next
  case (Cons x xs)
  let ?pre = "pre @ [x]"
  show ?case
  proof (cases "bv < x")
    case True
    have a: "length pre < length ?pre" by simp
    have b: "x = ?pre ! length pre" by simp
    have c: "\<forall>j<length ?pre. ?pre ! j \<le> x"
      using Cons.prems True by (auto simp: nth_append less_Suc_eq)
    have d: "\<forall>j<length pre. ?pre ! j < x"
      using Cons.prems True by (auto simp: nth_append)
    from Cons.IH[OF a b c d] True show ?thesis by simp
  next
    case False
    have a: "best < length ?pre" using Cons.prems by simp
    have b: "bv = ?pre ! best" using Cons.prems by (simp add: nth_append)
    have c: "\<forall>j<length ?pre. ?pre ! j \<le> bv"
      using Cons.prems False by (auto simp: nth_append less_Suc_eq)
    have d: "\<forall>j<best. ?pre ! j < bv"
      using Cons.prems by (auto simp: nth_append)
    from Cons.IH[OF a b c d] False show ?thesis by simp
  qed
qed

lemma np_argmax_first_max:
  assumes "np_argmax theta = Inr r"
  shows "r < length theta \<and> (\<forall>j<length theta. theta ! j \<le> theta ! r) \<and> (\<forall>j<r. theta ! j < theta ! r)"
proof (cases theta)
  case Nil
  with assms show ?thesis by simp
next
  case (Cons x xs)
  have "argmax_from 0 x (length [x]) xs < length ([x] @ xs) \<and>
        (\<forall>j<length ([x] @ xs). ([x] @ xs) ! j \<le> ([x] @ xs) ! argmax_from 0 x (length [x]) xs) \<and>
        (\<forall>j<argmax_from 0 x (length [x]) xs. ([x] @ xs) ! j < ([x] @ xs) ! argmax_from 0 x (length [x]) xs)"
    by (rule argmax_from_inv) auto
  with assms Cons show ?thesis by simp
qed


lemma draw_all_length: "length (fst (draw_all draw g ps)) = length ps"
proof (induction ps arbitrary: g)
  case Nil
  then show ?case by simp
next
  case (Cons p ps)
  obtain a b where p: "p = (a, b)" by (cases p)
  obtain x g1 where d: "draw g a b = (x, g1)" by (cases "draw g a b")
  obtain xs g2 where r: "draw_all draw g1 ps = (xs, g2)" by (cases "draw_all draw g1 ps")
  from Cons.IH[of g1] r have "length xs = length ps" by simp
  with p d r show ?case by simp
qed



lemma read_counts_length:
  "read_counts vs = Inr (exs, cvs) \<Longrightarrow> length exs = length vs \<and> length cvs = length vs"
  by (induction vs arbitrary: exs cvs) (auto split: sum.splits prod.splits)




lemma np_random_beta_length:
  "np_random_beta draw g a b = (Inr theta, g') \<Longrightarrow> length theta = min (length a) (length b)"
  using draw_all_length[of draw g "zip a b"]
  by (auto simp: np_random_beta_def split: if_splits prod.splits)

text \<open>What a selection that returns has done.\<close>

lemma log_experiment_data_explicit:
  "log_experiment_data env exs cvs theta w =
     (Inr (), w\<lparr>log_table := log_table (snd (log_experiment_data env exs cvs theta w)),
               calls := calls w @ [PutItem \<lparr>snap_experiment_id = exp_id w, snap_timestamp = utcnow_iso env,
                                          snap_exposures = exs, snap_conversions = cvs, snap_theta = theta\<rparr>],
               logged := logged (snd (log_experiment_data env exs cvs theta w))\<rparr>)"
proof (cases "put_item env \<lparr>snap_experiment_id = exp_id w, snap_timestamp = utcnow_iso env,
                 snap_exposures = exs, snap_conversions = cvs, snap_theta = theta\<rparr>")
  case None
  then show ?thesis by (simp add: log_experiment_data_def Let_def)
next
  case (Some e)
  then show ?thesis
    by (cases e) (simp_all add: log_experiment_data_def Let_def)
qed

lemma log_experiment_data_effect:
  "\<exists>lt lg. log_experiment_data env exs cvs theta w =
     (Inr (), w\<lparr>log_table := lt,
               calls := calls w @ [PutItem \<lparr>snap_experiment_id = exp_id w, snap_timestamp = utcnow_iso env,
                                          snap_exposures = exs, snap_conversions = cvs, snap_theta = theta\<rparr>],
               logged := lg\<rparr>)"
  using log_experiment_data_explicit[of env exs cvs theta w] by blast

lemma select_variation_index_Inr:
  assumes "select_variation_index env w = (Inr idx, w1)"
  shows "\<exists>exs cvs theta g lt lg.
           read_counts (variations w) = Inr (exs, cvs) \<and>
           np_random_beta (beta_draw env) (rng w) (map (\<lambda>c. c + 1) cvs) (map (\<lambda>x. x + 1) exs) = (Inr theta, g) \<and>
           np_argmax theta = Inr idx \<and>
           w1 = w\<lparr>rng := g, log_table := lt,
                  calls := calls w @ [PutItem \<lparr>snap_experiment_id = exp_id w, snap_timestamp = utcnow_iso env,
                                          snap_exposures = exs, snap_conversions = cvs, snap_theta = theta\<rparr>],
                  logged := lg\<rparr>"
proof -
  from assms obtain exs cvs where r: "read_counts (variations w) = Inr (exs, cvs)"
    by (auto simp: select_variation_index_def split: sum.splits)
  from assms r obtain theta g where
    b: "np_random_beta (beta_draw env) (rng w) (map (\<lambda>c. c + 1) cvs) (map (\<lambda>x. x + 1) exs) = (Inr theta, g)"
    by (auto simp: select_variation_index_def split: sum.splits prod.splits)
  obtain lt lg where
    l: "log_experiment_data env exs cvs theta (w\<lparr>rng := g\<rparr>) =
          (Inr (), w\<lparr>rng := g, log_table := lt,
               calls := calls w @ [PutItem \<lparr>snap_experiment_id = exp_id w, snap_timestamp = utcnow_iso env,
                                          snap_exposures = exs, snap_conversions = cvs, snap_theta = theta\<rparr>],
               logged := lg\<rparr>)"
    using log_experiment_data_effect[of env exs cvs theta "w\<lparr>rng := g\<rparr>"] by auto
  from assms r b l have "np_argmax theta = Inr idx"
    and "w1 = w\<lparr>rng := g, log_table := lt,
               calls := calls w @ [PutItem \<lparr>snap_experiment_id = exp_id w, snap_timestamp = utcnow_iso env,
                                          snap_exposures = exs, snap_conversions = cvs, snap_theta = theta\<rparr>],
               logged := lg\<rparr>"
    by (simp_all add: select_variation_index_def Let_def)
  with r b show ?thesis by blast
qed

lemma select_variation_index_in_range:
  assumes "select_variation_index env w = (Inr idx, w1)"
  shows "idx < length (variations w)"
proof -
  from select_variation_index_Inr[OF assms] obtain exs cvs theta g where
    r: "read_counts (variations w) = Inr (exs, cvs)" and
    b: "np_random_beta (beta_draw env) (rng w) (map (\<lambda>c. c + 1) cvs) (map (\<lambda>x. x + 1) exs) = (Inr theta, g)" and
    a: "np_argmax theta = Inr idx"
    by blast
  from np_random_beta_length[OF b] read_counts_length[OF r]
  have "length theta = length (variations w)" by simp
  with np_argmax_first_max[OF a] show ?thesis by simp
qed

lemma select_variation_index_frame:
  "variations (snd (select_variation_index env w)) = variations w \<and>
   heap (snd (select_variation_index env w)) = heap w \<and>
   identity_of (snd (select_variation_index env w)) = identity_of w"
proof (cases "read_counts (variations w)")
  case (Inl e)
  then show ?thesis by (simp add: select_variation_index_def)
next
  case (Inr p)
  obtain exs cvs where p: "p = (exs, cvs)" by (cases p)
  obtain r g where
    b: "np_random_beta (beta_draw env) (rng w) (map (\<lambda>c. c + 1) cvs) (map (\<lambda>x. x + 1) exs) = (r, g)"
    by (cases "np_random_beta (beta_draw env) (rng w) (map (\<lambda>c. c + 1) cvs) (map (\<lambda>x. x + 1) exs)")
  show ?thesis
  proof (cases r)
    case (Inl e)
    with Inr p b show ?thesis by (simp add: select_variation_index_def identity_of_def)
  next
    case (Inr theta)
    obtain lt lg cs where
      "log_experiment_data env exs cvs theta (w\<lparr>rng := g\<rparr>) =
         (Inr (), w\<lparr>rng := g, log_table := lt, calls := cs, logged := lg\<rparr>)"
      using log_experiment_data_effect[of env exs cvs theta "w\<lparr>rng := g\<rparr>"] by auto
    with \<open>read_counts (variations w) = Inr p\<close> p b Inr show ?thesis
      by (simp add: select_variation_index_def identity_of_def Let_def)
  qed
qed


lemma increment_exposure_count_length [simp]:
  "length (increment_exposure_count i vs) = length vs"
  by (simp add: increment_exposure_count_def)

lemma increment_exposure_count_resolver:
  "i < length vs \<Longrightarrow> resolver (increment_exposure_count i vs ! i) = resolver (vs ! i)"
  by (simp add: increment_exposure_count_def)

lemma increment_exposure_count_config:
  "i < length vs \<Longrightarrow>
     config (increment_exposure_count i vs ! i) =
       AList.update ''exposures'' (PyInt (exposure_count (vs ! i) + 1)) (config (vs ! i))"
  by (simp add: increment_exposure_count_def)

lemma increment_exposure_count_other:
  "j \<noteq> i \<Longrightarrow> increment_exposure_count i vs ! j = vs ! j"
  by (simp add: increment_exposure_count_def)

lemma count_of_update:
  "count_of (AList.update key (PyInt n) cfg) key = Inr n"
  by (simp add: count_of_def dict_get_def update_conv')

lemma exposure_count_incremented:
  assumes "i < length vs"
  shows "exposure_count (increment_exposure_count i vs ! i) = exposure_count (vs ! i) + 1"
proof -
  have "exposure_count (increment_exposure_count i vs ! i) =
          (case count_of (AList.update ''exposures'' (PyInt (exposure_count (vs ! i) + 1)) (config (vs ! i)))
                  ''exposures'' of Inr n \<Rightarrow> n | Inl e \<Rightarrow> 0)"
    using assms by (simp add: exposure_count_def[of "increment_exposure_count i vs ! i"]
                              increment_exposure_count_config)
  then show ?thesis by (simp add: count_of_update)
qed

lemma identity_of_updates [simp]:
  "identity_of (w\<lparr>variations := vs\<rparr>) = identity_of w"
  "identity_of (w\<lparr>heap := hp\<rparr>) = identity_of w"
  "identity_of (w\<lparr>rng := g\<rparr>) = identity_of w"
  "identity_of (w\<lparr>log_table := lt\<rparr>) = identity_of w"
  "identity_of (w\<lparr>calls := cs\<rparr>) = identity_of w"
  "identity_of (w\<lparr>logged := lg\<rparr>) = identity_of w"
  by (simp_all add: identity_of_def)

lemma get_items_selected:
  assumes u: "truthy user_id" and n: "2 \<le> length (variations w)"
    and s: "select_variation_index env w = (Inr idx, w1)"
    and p: "params = \<lparr>rp_user_id = user_id, rp_product_id = current_item_id,
                      rp_product_list = item_list, rp_num_results = num_results,
                      rp_filter_values = filter_values, rp_context = context,
                      rp_promotion = promotion\<rparr>"
    and w4: "w4 = w1\<lparr>variations := increment_exposure_count idx (variations w),
                     calls := calls w1 @ [IncrementExposureCount idx, ResolverGetItems idx params],
                     logged := logged w1 @ [DebugAssigned user_id idx]\<rparr>"
    and ev: "event = exposure_event_of (identity_of w) user_id idx
                       (config (increment_exposure_count idx (variations w) ! idx))
                       (case timestamp of None \<Rightarrow> now_posix env | Some t \<Rightarrow> t)"
  shows "get_items env user_id current_item_id item_list num_results tracker filter_values context
           timestamp promotion w =
     (case resolver (variations w ! idx) params (heap w) of
        Inl e \<Rightarrow> (Inl e, w4)
      | Inr (items, h) \<Rightarrow>
          (case tracker of
             None \<Rightarrow> (Inr items, w4\<lparr>heap := annotate (identity_of w) user_id idx 1 items h\<rparr>)
           | Some log_exposure \<Rightarrow>
               (case log_exposure event of
                  Some e \<Rightarrow> (Inl e, w4\<lparr>heap := annotate (identity_of w) user_id idx 1 items h,
                                         calls := calls w4 @ [LogExposure event]\<rparr>)
                | None \<Rightarrow> (Inr items, w4\<lparr>heap := annotate (identity_of w) user_id idx 1 items h,
                                         calls := calls w4 @ [LogExposure event]\<rparr>))))"
proof -
  have i: "idx < length (variations w)" by (rule select_variation_index_in_range[OF s])
  from select_variation_index_frame[of env w] s
  have f: "variations w1 = variations w" "heap w1 = heap w" "identity_of w1 = identity_of w"
    by simp_all
  show ?thesis
    using u n i
    by (simp add: get_items_def s f p w4 ev Let_def increment_exposure_count_resolver
             split: sum.splits prod.splits option.splits)
qed


subsection \<open>Annotation and a call that returns\<close>

lemma annotate_other:
  "a \<notin> set as \<Longrightarrow> annotate ident user_id v r as h a = h a"
  by (induction as arbitrary: r h) auto

lemma annotate_map_of_other:
  "key \<noteq> ''experiment'' \<Longrightarrow> map_of (annotate ident user_id v r as h a) key = map_of (h a) key"
  by (induction as arbitrary: r h) (auto simp: update_conv')

lemma annotate_keys:
  "keys (annotate ident user_id v r as h a) =
     (if a \<in> set as then insert ''experiment'' (keys (h a)) else keys (h a))"
  by (induction as arbitrary: r h) (auto simp: keys_def dom_update)

lemma annotate_stamped:
  "a \<in> set as \<Longrightarrow> \<exists>e. map_of (annotate ident user_id v r as h a) ''experiment'' = Some (Experiment e)"
proof (induction as arbitrary: r h)
  case Nil
  then show ?case by simp
next
  case (Cons b as)
  show ?case
  proof (cases "a \<in> set as")
    case True
    with Cons.IH show ?thesis by simp
  next
    case False
    with Cons.prems have "b = a" by simp
    with False show ?thesis by (simp add: annotate_other update_conv')
  qed
qed

lemma annotate_distinct_nth:
  "distinct as \<Longrightarrow> k < length as \<Longrightarrow>
     annotate ident user_id v r as h (as ! k) =
       AList.update ''experiment'' (Experiment (item_experiment_of ident user_id v (r + k))) (h (as ! k))"
proof (induction as arbitrary: r h k)
  case Nil
  then show ?case by simp
next
  case (Cons a as)
  show ?case
  proof (cases k)
    case 0
    with Cons.prems show ?thesis by (simp add: annotate_other)
  next
    case (Suc j)
    with Cons.prems have j: "j < length as" "distinct as" "as ! j \<noteq> a" by auto
    from Cons.IH[OF j(2) j(1), of "Suc r"] j(3) Suc show ?thesis by simp
  qed
qed

lemma experiment_of_update:
  "experiment_of (AList.update ''experiment'' (Experiment e) it) = Some e"
  by (simp add: experiment_of_def update_conv')

lemma get_items_Inr:
  assumes "get_items env user_id current_item_id item_list num_results tracker filter_values context
             timestamp promotion w = (Inr items, w')"
  shows "\<exists>idx w1 h.
           truthy user_id \<and> 2 \<le> length (variations w) \<and>
           select_variation_index env w = (Inr idx, w1) \<and>
           idx < length (variations w) \<and>
           resolver (variations w ! idx)
             \<lparr>rp_user_id = user_id, rp_product_id = current_item_id,
              rp_product_list = item_list, rp_num_results = num_results,
              rp_filter_values = filter_values, rp_context = context,
              rp_promotion = promotion\<rparr> (heap w) = Inr (items, h) \<and>
           (\<forall>t. tracker = Some t \<longrightarrow>
              t (exposure_event_of (identity_of w) user_id idx
                   (config (increment_exposure_count idx (variations w) ! idx))
                   (case timestamp of None \<Rightarrow> now_posix env | Some t \<Rightarrow> t)) = None) \<and>
           w' = w1\<lparr>variations := increment_exposure_count idx (variations w),
                   heap := annotate (identity_of w) user_id idx 1 items h,
                   calls := calls w1 @
                     [IncrementExposureCount idx,
                      ResolverGetItems idx
                        \<lparr>rp_user_id = user_id, rp_product_id = current_item_id,
                         rp_product_list = item_list, rp_num_results = num_results,
                         rp_filter_values = filter_values, rp_context = context,
                         rp_promotion = promotion\<rparr>] @
                     (case tracker of
                        None \<Rightarrow> []
                      | Some t \<Rightarrow>
                          [LogExposure
                             (exposure_event_of (identity_of w) user_id idx
                                (config (increment_exposure_count idx (variations w) ! idx))
                                (case timestamp of None \<Rightarrow> now_posix env | Some t \<Rightarrow> t))]),
                   logged := logged w1 @ [DebugAssigned user_id idx]\<rparr>"
proof -
  from assms have u: "truthy user_id" and n: "2 \<le> length (variations w)"
    by (auto simp: get_items_def split: if_splits)
  obtain r w1 where s0: "select_variation_index env w = (r, w1)"
    by (cases "select_variation_index env w")
  with assms u n obtain idx where r: "r = Inr idx"
    by (cases r) (auto simp: get_items_def)
  with s0 have s: "select_variation_index env w = (Inr idx, w1)" by simp
  have i: "idx < length (variations w)" by (rule select_variation_index_in_range[OF s])
  note unf = get_items_selected[OF u n s refl refl refl]
  from assms obtain h where
    h: "resolver (variations w ! idx)
             \<lparr>rp_user_id = user_id, rp_product_id = current_item_id,
              rp_product_list = item_list, rp_num_results = num_results,
              rp_filter_values = filter_values, rp_context = context,
              rp_promotion = promotion\<rparr> (heap w) = Inr (items, h)"
    by (auto simp: unf split: sum.splits prod.splits option.splits)
  from assms h u n s i show ?thesis
    by (auto simp: unf split: option.splits)
qed

lemma select_variation_index_calls:
  assumes "select_variation_index env w = (Inr idx, w1)"
  shows "\<exists>snapshot. calls w1 = calls w @ [PutItem snapshot]"
  using select_variation_index_Inr[OF assms] by auto


subsection \<open>The outcome of the snapshot write\<close>

lemma log_experiment_data_put_item:
  "\<exists>lt lg. log_experiment_data (env\<lparr>put_item := f\<rparr>) exs cvs theta w =
     (Inr (), (snd (log_experiment_data env exs cvs theta w))\<lparr>log_table := lt, logged := lg\<rparr>)"
proof -
  obtain lt lg where a: "log_experiment_data (env\<lparr>put_item := f\<rparr>) exs cvs theta w =
     (Inr (), w\<lparr>log_table := lt,
               calls := calls w @ [PutItem \<lparr>snap_experiment_id = exp_id w, snap_timestamp = utcnow_iso env,
                                          snap_exposures = exs, snap_conversions = cvs, snap_theta = theta\<rparr>],
               logged := lg\<rparr>)"
    using log_experiment_data_effect[of "env\<lparr>put_item := f\<rparr>" exs cvs theta w] by auto
  obtain lt' lg' where b: "log_experiment_data env exs cvs theta w =
     (Inr (), w\<lparr>log_table := lt',
               calls := calls w @ [PutItem \<lparr>snap_experiment_id = exp_id w, snap_timestamp = utcnow_iso env,
                                          snap_exposures = exs, snap_conversions = cvs, snap_theta = theta\<rparr>],
               logged := lg'\<rparr>)"
    using log_experiment_data_effect[of env exs cvs theta w] by auto
  have "log_experiment_data (env\<lparr>put_item := f\<rparr>) exs cvs theta w =
     (Inr (), (snd (log_experiment_data env exs cvs theta w))\<lparr>log_table := lt, logged := lg\<rparr>)"
    by (simp add: a b)
  then show ?thesis by blast
qed

lemma select_variation_index_put_item:
  "\<exists>lt lg. select_variation_index (env\<lparr>put_item := f\<rparr>) w =
     (fst (select_variation_index env w),
      (snd (select_variation_index env w))\<lparr>log_table := lt, logged := lg\<rparr>)"
proof (cases "read_counts (variations w)")
  case (Inl e)
  then have "select_variation_index (env\<lparr>put_item := f\<rparr>) w =
     (fst (select_variation_index env w),
      (snd (select_variation_index env w))\<lparr>log_table := log_table w, logged := logged w\<rparr>)"
    by (simp add: select_variation_index_def)
  then show ?thesis by blast
next
  case (Inr p)
  obtain exs cvs where p: "p = (exs, cvs)" by (cases p)
  obtain r g where
    b: "np_random_beta (beta_draw env) (rng w) (map (\<lambda>c. c + 1) cvs) (map (\<lambda>x. x + 1) exs) = (r, g)"
    by (cases "np_random_beta (beta_draw env) (rng w) (map (\<lambda>c. c + 1) cvs) (map (\<lambda>x. x + 1) exs)")
  show ?thesis
  proof (cases r)
    case (Inl e)
    with Inr p b have "select_variation_index (env\<lparr>put_item := f\<rparr>) w =
     (fst (select_variation_index env w),
      (snd (select_variation_index env w))\<lparr>log_table := log_table w, logged := logged w\<rparr>)"
      by (simp add: select_variation_index_def)
    then show ?thesis by blast
  next
    case theta: (Inr theta)
    obtain lt lg where
      l: "log_experiment_data (env\<lparr>put_item := f\<rparr>) exs cvs theta (w\<lparr>rng := g\<rparr>) =
            (Inr (), (snd (log_experiment_data env exs cvs theta (w\<lparr>rng := g\<rparr>)))\<lparr>log_table := lt, logged := lg\<rparr>)"
      using log_experiment_data_put_item[where env = env and f = f and exs = exs and cvs = cvs
              and theta = theta and w = "w\<lparr>rng := g\<rparr>"] by blast
    obtain lt' lg' cs' where
      l': "log_experiment_data env exs cvs theta (w\<lparr>rng := g\<rparr>) =
            (Inr (), w\<lparr>rng := g, log_table := lt', calls := cs', logged := lg'\<rparr>)"
      using log_experiment_data_effect[of env exs cvs theta "w\<lparr>rng := g\<rparr>"] by auto
    from Inr p b theta l l' have "select_variation_index (env\<lparr>put_item := f\<rparr>) w =
     (fst (select_variation_index env w),
      (snd (select_variation_index env w))\<lparr>log_table := lt, logged := lg\<rparr>)"
      by (simp add: select_variation_index_def Let_def)
    then show ?thesis by blast
  qed
qed

lemma get_items_put_item:
  "\<exists>lt lg.
     get_items (env\<lparr>put_item := f\<rparr>) user_id current_item_id item_list num_results tracker
         filter_values context timestamp promotion w =
       (fst (get_items env user_id current_item_id item_list num_results tracker
               filter_values context timestamp promotion w),
        (snd (get_items env user_id current_item_id item_list num_results tracker
               filter_values context timestamp promotion w))\<lparr>log_table := lt, logged := lg\<rparr>)"
proof (cases "truthy user_id \<and> 2 \<le> length (variations w)")
  case False
  then have "get_items (env\<lparr>put_item := f\<rparr>) user_id current_item_id item_list num_results tracker
         filter_values context timestamp promotion w =
       (fst (get_items env user_id current_item_id item_list num_results tracker
               filter_values context timestamp promotion w),
        (snd (get_items env user_id current_item_id item_list num_results tracker
               filter_values context timestamp promotion w))\<lparr>log_table := log_table w, logged := logged w\<rparr>)"
    by (auto simp: get_items_def)
  then show ?thesis by blast
next
  case True
  then have u: "truthy user_id" and n: "2 \<le> length (variations w)" by simp_all
  obtain r w1 where s: "select_variation_index env w = (r, w1)"
    by (cases "select_variation_index env w")
  obtain lt lg where s': "select_variation_index (env\<lparr>put_item := f\<rparr>) w = (r, w1\<lparr>log_table := lt, logged := lg\<rparr>)"
    using select_variation_index_put_item[where env = env and f = f and w = w] s by auto
  show ?thesis
  proof (cases r)
    case (Inl e)
    with u n s s' have "get_items (env\<lparr>put_item := f\<rparr>) user_id current_item_id item_list num_results tracker
         filter_values context timestamp promotion w =
       (fst (get_items env user_id current_item_id item_list num_results tracker
               filter_values context timestamp promotion w),
        (snd (get_items env user_id current_item_id item_list num_results tracker
               filter_values context timestamp promotion w))\<lparr>log_table := lt, logged := lg\<rparr>)"
      by (simp add: get_items_def)
    then show ?thesis by blast
  next
    case (Inr idx)
    note a = get_items_selected[OF u n s[unfolded Inr] refl refl refl]
    note b = get_items_selected[OF u n s'[unfolded Inr] refl refl refl]
    have "get_items (env\<lparr>put_item := f\<rparr>) user_id current_item_id item_list num_results tracker
         filter_values context timestamp promotion w =
       (fst (get_items env user_id current_item_id item_list num_results tracker
               filter_values context timestamp promotion w),
        (snd (get_items env user_id current_item_id item_list num_results tracker
               filter_values context timestamp promotion w))\<lparr>log_table := lt,
                 logged := lg @ [DebugAssigned user_id idx]\<rparr>)"
      by (simp add: a b split: sum.splits prod.splits option.splits)
    then show ?thesis by blast
  qed
qed

subsection \<open>The concrete experiment, evaluated\<close>

lemma demo_read_counts: "read_counts demo_variations = Inr ([10, 10], [9, 1])"
  by (simp add: demo_variations_def count_of_def dict_get_def)

lemma demo_theta: "np_random_beta mean_draw () [10, 2] [11, 11] = (Inr [10 / 21, 2 / 13], ())"
  by (simp add: np_random_beta_def mean_draw_def)

lemma demo_select:
  "select_variation_index demo_env demo_world =
     (Inr 0, demo_world\<lparr>log_table := [\<lparr>snap_experiment_id = ''exp-1'', snap_timestamp = ''2024-01-01T00:00:00'',
                                        snap_exposures = [10, 10], snap_conversions = [9, 1],
                                        snap_theta = [10 / 21, 2 / 13]\<rparr>],
                        calls := [PutItem \<lparr>snap_experiment_id = ''exp-1'', snap_timestamp = ''2024-01-01T00:00:00'',
                                        snap_exposures = [10, 10], snap_conversions = [9, 1],
                                        snap_theta = [10 / 21, 2 / 13]\<rparr>],
                        logged := [DebugLoggedData ''2024-01-01T00:00:00'']\<rparr>)"
  by (simp add: select_variation_index_def demo_env_def demo_world_def demo_read_counts demo_theta
       log_experiment_data_def Let_def)


lemma demo_call_fst: "fst (demo_call None demo_world) = Inr [0, 1, 2]"
proof -
  have u: "truthy (PyStr ''u1'')" by simp
  have n: "2 \<le> length (variations demo_world)" by (simp add: demo_world_def demo_variations_def)
  have v: "variations demo_world ! 0 = \<lparr>config = [(''exposures'', PyInt 10), (''conversions'', PyInt 9)], resolver = demo_resolver\<rparr>"
    by (simp add: demo_world_def demo_variations_def)
  show ?thesis
    by (simp add: demo_call_def get_items_selected[OF u n demo_select refl refl refl] v demo_resolver_def)
qed

lemma demo_call_result:
  "get_items demo_env (PyStr ''u1'') PyNone PyNone (PyInt 3) None PyNone PyNone None PyNone demo_world =
     (Inr [0, 1, 2], snd (demo_call None demo_world))"
  using demo_call_fst by (simp add: prod_eq_iff demo_call_def)

lemma aliasing_read_counts: "read_counts (variations aliasing_world) = Inr ([10, 10], [9, 1])"
  by (simp add: aliasing_world_def demo_variations_def count_of_def dict_get_def)

lemma aliasing_select: "fst (select_variation_index demo_env aliasing_world) = Inr 0"
proof -
  have "rng aliasing_world = ()" "beta_draw demo_env = mean_draw" by (simp_all add: demo_env_def)
  then show ?thesis
    using log_experiment_data_effect[of demo_env "[10, 10]" "[9, 1]" "[10 / 21, 2 / 13]" "aliasing_world\<lparr>rng := ()\<rparr>"]
    by (auto simp: select_variation_index_def aliasing_read_counts demo_theta Let_def)
qed

lemma unresolved_select: "fst (select_variation_index demo_env unresolved_world) = Inr 0"
proof -
  have r: "read_counts (variations unresolved_world) = Inr ([10, 10], [9, 1])"
    by (simp add: unresolved_world_def demo_variations_def count_of_def dict_get_def)
  have "rng unresolved_world = ()" "beta_draw demo_env = mean_draw" by (simp_all add: demo_env_def)
  then show ?thesis
    using log_experiment_data_effect[of demo_env "[10, 10]" "[9, 1]" "[10 / 21, 2 / 13]" "unresolved_world\<lparr>rng := ()\<rparr>"]
    by (auto simp: select_variation_index_def r demo_theta Let_def)
qed





section \<open>Validation\<close>




section \<open>The exposure event\<close>

text \<open>
  C1. \<open>tracker.log_exposure(event)\<close> is called outside any \<open>try\<close>. On the concrete
  experiment the call without a tracker returns the items \<open>[0, 1, 2]\<close>; the same call
  with a tracker that raises ends with the tracker's exception and returns no items.
\<close>

theorem tracker_exception_aborts:
  "fst (get_items demo_env (PyStr ''u1'') PyNone PyNone (PyInt 3) None PyNone PyNone None PyNone demo_world) = Inr [0, 1, 2] \<and>
   fst (get_items demo_env (PyStr ''u1'') PyNone PyNone (PyInt 3) (Some failing_tracker) PyNone PyNone None PyNone demo_world) =
     Inl (RuntimeError ''tracker unavailable'')"
proof -
  have u: "truthy (PyStr ''u1'')" by simp
  have n: "2 \<le> length (variations demo_world)" by (simp add: demo_world_def demo_variations_def)
  have v: "variations demo_world ! 0 = \<lparr>config = [(''exposures'', PyInt 10), (''conversions'', PyInt 9)], resolver = demo_resolver\<rparr>"
    by (simp add: demo_world_def demo_variations_def)
  show ?thesis
    by (simp add: get_items_selected[OF u n demo_select refl refl refl] v demo_resolver_def failing_tracker_def)
qed

section \<open>Selecting a variation\<close>




section \<open>Annotating the items\<close>

text \<open>
  C4 (as amended). For every call of \<open>get_items\<close> that returns, if the list the
  resolver returned holds pairwise distinct item objects, then the item at position
  \<open>k\<close> (counted from 0, in the resolver's order) carries under \<open>experiment\<close> the
  experiment's id, feature, name and type, the chosen variation index, the rank
  \<open>k + 1\<close> and the correlation id made from \<open>(user_id, variation_index, k + 1)\<close>; so
  the ranks are \<open>1, ..., n\<close> in order and the correlation ids are pairwise distinct.
\<close>

theorem items_stamped_in_order:
  assumes ok: "get_items env user_id current_item_id item_list num_results tracker filter_values context
                 timestamp promotion w = (Inr items, w')"
    and d: "distinct items"
  shows "\<exists>idx w1 h.
           select_variation_index env w = (Inr idx, w1) \<and>
           resolver (variations w ! idx)
             \<lparr>rp_user_id = user_id, rp_product_id = current_item_id,
              rp_product_list = item_list, rp_num_results = num_results,
              rp_filter_values = filter_values, rp_context = context,
              rp_promotion = promotion\<rparr> (heap w) = Inr (items, h) \<and>
           (\<forall>k<length items.
              experiment_of (heap w' (items ! k)) =
                Some \<lparr>ie_id = exp_id w, ie_feature = exp_feature w, ie_name = exp_name w,
                      ie_type = exp_type w, variationIndex = idx, resultRank = k + 1,
                      correlationId = create_correlation_id user_id idx (k + 1)\<rparr>) \<and>
           map (\<lambda>a. map_option resultRank (experiment_of (heap w' a))) items =
             map Some [1..<length items + 1] \<and>
           distinct (map (\<lambda>a. map_option correlationId (experiment_of (heap w' a))) items)"
proof -
  from get_items_Inr[OF ok] obtain idx w1 h where
    s: "select_variation_index env w = (Inr idx, w1)" and
    r: "resolver (variations w ! idx)
             \<lparr>rp_user_id = user_id, rp_product_id = current_item_id,
              rp_product_list = item_list, rp_num_results = num_results,
              rp_filter_values = filter_values, rp_context = context,
              rp_promotion = promotion\<rparr> (heap w) = Inr (items, h)" and
    hp: "heap w' = annotate (identity_of w) user_id idx 1 items h"
    by auto
  have st: "\<forall>k<length items.
              experiment_of (heap w' (items ! k)) =
                Some \<lparr>ie_id = exp_id w, ie_feature = exp_feature w, ie_name = exp_name w,
                      ie_type = exp_type w, variationIndex = idx, resultRank = k + 1,
                      correlationId = create_correlation_id user_id idx (k + 1)\<rparr>"
    using d by (simp add: hp annotate_distinct_nth experiment_of_update item_experiment_of_def identity_of_def)
  have ranks: "map (\<lambda>a. map_option resultRank (experiment_of (heap w' a))) items =
             map Some [1..<length items + 1]"
  proof (rule nth_equalityI)
    show "length (map (\<lambda>a. map_option resultRank (experiment_of (heap w' a))) items) =
          length (map Some [1..<length items + 1])" by (simp del: upt_Suc)
  next
    fix k assume "k < length (map (\<lambda>a. map_option resultRank (experiment_of (heap w' a))) items)"
    then have k: "k < length items" by simp
    with st have "map_option resultRank (experiment_of (heap w' (items ! k))) = Some (k + 1)" by simp
    moreover from k have "map Some [1..<length items + 1] ! k = Some (k + 1)"
      using nth_upt[of 1 k "length items + 1"] by (simp del: upt_Suc)
    ultimately show "map (\<lambda>a. map_option resultRank (experiment_of (heap w' a))) items ! k =
                     map Some [1..<length items + 1] ! k"
      using k by simp
  qed
  have cids: "distinct (map (\<lambda>a. map_option correlationId (experiment_of (heap w' a))) items)"
  proof (rule iffD2[OF distinct_conv_nth], intro allI impI)
    fix i j
    assume i: "i < length (map (\<lambda>a. map_option correlationId (experiment_of (heap w' a))) items)"
      and j: "j < length (map (\<lambda>a. map_option correlationId (experiment_of (heap w' a))) items)"
      and ij: "i \<noteq> j"
    from i j st have
      "map (\<lambda>a. map_option correlationId (experiment_of (heap w' a))) items ! i =
         Some (create_correlation_id user_id idx (i + 1))"
      "map (\<lambda>a. map_option correlationId (experiment_of (heap w' a))) items ! j =
         Some (create_correlation_id user_id idx (j + 1))"
      by simp_all
    with ij show "map (\<lambda>a. map_option correlationId (experiment_of (heap w' a))) items ! i \<noteq>
                  map (\<lambda>a. map_option correlationId (experiment_of (heap w' a))) items ! j"
      by (simp add: create_correlation_id_def)
  qed
  from s r st ranks cids show ?thesis by blast
qed

text \<open>The concrete experiment: three distinct items with the ranks 1, 2, 3.\<close>

theorem items_stamped_in_order_witness:
  "fst (demo_call None demo_world) = Inr [0, 1, 2] \<and> distinct [0, 1, 2 :: nat] \<and>
   map (\<lambda>a. map_option resultRank (experiment_of (heap (snd (demo_call None demo_world)) a))) [0, 1, 2] =
     [Some 1, Some 2, Some 3] \<and>
   distinct (map (\<lambda>a. map_option correlationId (experiment_of (heap (snd (demo_call None demo_world)) a)))
               [0, 1, 2])"
proof -
  note c = demo_call_result
  have d: "distinct [0, 1, 2 :: nat]" by simp
  have e: "[1..<length [0, 1, 2 :: nat] + 1] = [1, 2, 3]" by (simp add: upt_rec)
  from items_stamped_in_order[OF c d] e
  have "map (\<lambda>a. map_option resultRank (experiment_of (heap (snd (demo_call None demo_world)) a))) [0, 1, 2] =
          [Some 1, Some 2, Some 3]"
    and "distinct (map (\<lambda>a. map_option correlationId (experiment_of (heap (snd (demo_call None demo_world)) a)))
               [0, 1, 2])"
    by auto
  with demo_call_fst d show ?thesis by blast
qed

text \<open>
  When the resolver returns the same object twice, the second \<open>item.update\<close>
  overwrites the stamp of the first: both positions of the returned list show rank 2.
\<close>

theorem aliased_items_counterexample:
  "fst (demo_call None aliasing_world) = Inr [0, 0] \<and>
   map (\<lambda>a. map_option resultRank (experiment_of (heap (snd (demo_call None aliasing_world)) a))) [0, 0] =
     [Some 2, Some 2]"
proof -
  have u: "truthy (PyStr ''u1'')" by simp
  have n: "2 \<le> length (variations aliasing_world)"
    by (simp add: aliasing_world_def demo_variations_def)
  obtain w1 where s: "select_variation_index demo_env aliasing_world = (Inr 0, w1)"
    using aliasing_select by (cases "select_variation_index demo_env aliasing_world") simp
  have v: "resolver (variations aliasing_world ! 0) = aliasing_resolver"
    by (simp add: aliasing_world_def demo_variations_def)
  have c: "demo_call None aliasing_world =
             (Inr [0, 0],
              w1\<lparr>variations := increment_exposure_count 0 (variations aliasing_world),
                 calls := calls w1 @
                   [IncrementExposureCount 0,
                    ResolverGetItems 0
                      \<lparr>rp_user_id = PyStr ''u1'', rp_product_id = PyNone, rp_product_list = PyNone,
                       rp_num_results = PyInt 3, rp_filter_values = PyNone, rp_context = PyNone,
                       rp_promotion = PyNone\<rparr>],
                 logged := logged w1 @ [DebugAssigned (PyStr ''u1'') 0],
                 heap := annotate (identity_of aliasing_world) (PyStr ''u1'') 0 1 [0, 0] (heap aliasing_world)\<rparr>)"
    by (simp add: demo_call_def get_items_selected[OF u n s refl refl refl] v aliasing_resolver_def)
  show ?thesis
    by (simp add: c experiment_of_def update_conv' item_experiment_of_def)
qed

text \<open>
  C10. For every call of \<open>get_items\<close> that returns, the returned list is the list the
  resolver returned (the same references, in the same order). In the store, every key
  other than \<open>experiment\<close> of every object holds what the resolver left there, an
  object outside the list is untouched, and an object of the list has the resolver's keys
  and the key \<open>experiment\<close>, which holds a stamp whatever it held before.
\<close>

theorem annotation_only_mutation:
  assumes ok: "get_items env user_id current_item_id item_list num_results tracker filter_values context
                 timestamp promotion w = (Inr items, w')"
  shows "\<exists>idx w1 h.
           select_variation_index env w = (Inr idx, w1) \<and>
           resolver (variations w ! idx)
             \<lparr>rp_user_id = user_id, rp_product_id = current_item_id,
              rp_product_list = item_list, rp_num_results = num_results,
              rp_filter_values = filter_values, rp_context = context,
              rp_promotion = promotion\<rparr> (heap w) = Inr (items, h) \<and>
           (\<forall>a key. key \<noteq> ''experiment'' \<longrightarrow> map_of (heap w' a) key = map_of (h a) key) \<and>
           (\<forall>a. a \<notin> set items \<longrightarrow> heap w' a = h a) \<and>
           (\<forall>a\<in>set items.
              keys (heap w' a) = insert ''experiment'' (keys (h a)) \<and>
              (\<exists>e. map_of (heap w' a) ''experiment'' = Some (Experiment e)))"
proof -
  from get_items_Inr[OF ok] obtain idx w1 h where
    s: "select_variation_index env w = (Inr idx, w1)" and
    r: "resolver (variations w ! idx)
             \<lparr>rp_user_id = user_id, rp_product_id = current_item_id,
              rp_product_list = item_list, rp_num_results = num_results,
              rp_filter_values = filter_values, rp_context = context,
              rp_promotion = promotion\<rparr> (heap w) = Inr (items, h)" and
    hp: "heap w' = annotate (identity_of w) user_id idx 1 items h"
    by auto
  have a: "\<forall>a key. key \<noteq> ''experiment'' \<longrightarrow> map_of (heap w' a) key = map_of (h a) key"
    by (simp add: hp annotate_map_of_other)
  have b: "\<forall>a. a \<notin> set items \<longrightarrow> heap w' a = h a"
    by (simp add: hp annotate_other)
  have c: "\<forall>a\<in>set items.
              keys (heap w' a) = insert ''experiment'' (keys (h a)) \<and>
              (\<exists>e. map_of (heap w' a) ''experiment'' = Some (Experiment e))"
    by (simp add: hp annotate_keys annotate_stamped)
  from s r a b c show ?thesis by blast
qed

text \<open>The concrete experiment: each item keeps its \<open>itemId\<close> and gains \<open>experiment\<close>.\<close>

theorem annotation_only_mutation_witness:
  "fst (demo_call None demo_world) = Inr [0, 1, 2] \<and>
   map (\<lambda>a. map_of (heap (snd (demo_call None demo_world)) a) ''itemId'') [0, 1, 2] =
     [Some (Content (PyStr ''x'')), Some (Content (PyStr ''y'')), Some (Content (PyStr ''z''))] \<and>
   map (\<lambda>a. keys (heap (snd (demo_call None demo_world)) a)) [0, 1, 2] =
     [{''itemId'', ''experiment''}, {''itemId'', ''experiment''}, {''itemId'', ''experiment''}] \<and>
   heap (snd (demo_call None demo_world)) 3 = []"
proof -
  note c = demo_call_result
  from annotation_only_mutation[OF c] obtain idx w1 h where
    s: "select_variation_index demo_env demo_world = (Inr idx, w1)" and
    r: "resolver (variations demo_world ! idx)
             \<lparr>rp_user_id = PyStr ''u1'', rp_product_id = PyNone,
              rp_product_list = PyNone, rp_num_results = PyInt 3,
              rp_filter_values = PyNone, rp_context = PyNone,
              rp_promotion = PyNone\<rparr> (heap demo_world) = Inr ([0, 1, 2], h)" and
    a: "\<forall>a key. key \<noteq> ''experiment'' \<longrightarrow> map_of (heap (snd (demo_call None demo_world)) a) key = map_of (h a) key" and
    b: "\<forall>a. a \<notin> set [0, 1, 2] \<longrightarrow> heap (snd (demo_call None demo_world)) a = h a" and
    k: "\<forall>a\<in>set [0, 1, 2].
          keys (heap (snd (demo_call None demo_world)) a) = insert ''experiment'' (keys (h a)) \<and>
          (\<exists>e. map_of (heap (snd (demo_call None demo_world)) a) ''experiment'' = Some (Experiment e))"
    by (elim exE conjE) (rule that)
  from s have "idx = 0" by (simp add: demo_select)
  with r have "demo_resolver \<lparr>rp_user_id = PyStr ''u1'', rp_product_id = PyNone,
              rp_product_list = PyNone, rp_num_results = PyInt 3,
              rp_filter_values = PyNone, rp_context = PyNone,
              rp_promotion = PyNone\<rparr> demo_heap = Inr ([0, 1, 2], h)"
    by (simp add: demo_world_def demo_variations_def)
  then have h: "h = demo_heap" by (simp add: demo_resolver_def)
  have ne: "''itemId'' \<noteq> ''experiment''" by simp
  have h0: "h 0 = [(''itemId'', Content (PyStr ''x''))]"
    and h1: "h (Suc 0) = [(''itemId'', Content (PyStr ''y''))]"
    and h2: "h 2 = [(''itemId'', Content (PyStr ''z''))]"
    and h3: "h 3 = []"
    by (simp_all add: h demo_heap_def)
  have m: "map_of (heap (snd (demo_call None demo_world)) 0) ''itemId'' = Some (Content (PyStr ''x''))"
       "map_of (heap (snd (demo_call None demo_world)) 1) ''itemId'' = Some (Content (PyStr ''y''))"
       "map_of (heap (snd (demo_call None demo_world)) 2) ''itemId'' = Some (Content (PyStr ''z''))"
    using a[rule_format, OF ne, of 0] a[rule_format, OF ne, of 1] a[rule_format, OF ne, of 2]
    by (simp_all add: h0 h1 h2)
  have ks: "keys (heap (snd (demo_call None demo_world)) 0) = {''itemId'', ''experiment''}"
       "keys (heap (snd (demo_call None demo_world)) 1) = {''itemId'', ''experiment''}"
       "keys (heap (snd (demo_call None demo_world)) 2) = {''itemId'', ''experiment''}"
    using bspec[OF k, of 0] bspec[OF k, of 1] bspec[OF k, of 2]
    by (auto simp: h0 h1 h2 keys_def)
  have o: "heap (snd (demo_call None demo_world)) 3 = []"
    using b[rule_format, of 3] by (simp add: h3)
  from m ks o demo_call_fst show ?thesis by simp
qed

section \<open>A resolver that raises\<close>

text \<open>
  C9. For every call of \<open>get_items\<close> that passes validation and selects a variation
  whose resolver raises, the resolver's exception is the exception that leaves
  \<open>get_items\<close>. By then the snapshot write has been tried and
  \<open>_increment_exposure_count\<close> has been called for the chosen variation, in this order
  before the resolver; the count stays incremented, no tracker is called and no item is
  touched.
\<close>

theorem resolver_error_propagates:
  assumes u: "truthy user_id" and n: "2 \<le> length (variations w)"
    and s: "select_variation_index env w = (Inr idx, w1)"
    and r: "resolver (variations w ! idx)
              \<lparr>rp_user_id = user_id, rp_product_id = current_item_id,
               rp_product_list = item_list, rp_num_results = num_results,
               rp_filter_values = filter_values, rp_context = context,
               rp_promotion = promotion\<rparr> (heap w) = Inl e"
  shows "\<exists>w' snapshot.
           get_items env user_id current_item_id item_list num_results tracker filter_values context
             timestamp promotion w = (Inl e, w') \<and>
           calls w' = calls w @
             [PutItem snapshot, IncrementExposureCount idx,
              ResolverGetItems idx
                \<lparr>rp_user_id = user_id, rp_product_id = current_item_id,
                 rp_product_list = item_list, rp_num_results = num_results,
                 rp_filter_values = filter_values, rp_context = context,
                 rp_promotion = promotion\<rparr>] \<and>
           variations w' = increment_exposure_count idx (variations w) \<and>
           exposure_count (variations w' ! idx) = exposure_count (variations w ! idx) + 1 \<and>
           heap w' = heap w"
proof -
  from select_variation_index_calls[OF s] obtain snapshot where
    c: "calls w1 = calls w @ [PutItem snapshot]" by blast
  have i: "idx < length (variations w)" by (rule select_variation_index_in_range[OF s])
  from select_variation_index_frame[of env w] s have hp: "heap w1 = heap w" by simp
  define w' where "w' = w1\<lparr>variations := increment_exposure_count idx (variations w),
                     calls := calls w1 @ [IncrementExposureCount idx,
                        ResolverGetItems idx
                          \<lparr>rp_user_id = user_id, rp_product_id = current_item_id,
                           rp_product_list = item_list, rp_num_results = num_results,
                           rp_filter_values = filter_values, rp_context = context,
                           rp_promotion = promotion\<rparr>],
                     logged := logged w1 @ [DebugAssigned user_id idx]\<rparr>"
  have g: "get_items env user_id current_item_id item_list num_results tracker filter_values context
             timestamp promotion w = (Inl e, w')"
    by (simp add: get_items_selected[OF u n s refl w'_def refl] r)
  have "calls w' = calls w @
             [PutItem snapshot, IncrementExposureCount idx,
              ResolverGetItems idx
                \<lparr>rp_user_id = user_id, rp_product_id = current_item_id,
                 rp_product_list = item_list, rp_num_results = num_results,
                 rp_filter_values = filter_values, rp_context = context,
                 rp_promotion = promotion\<rparr>]"
    by (simp add: w'_def c)
  moreover have "variations w' = increment_exposure_count idx (variations w)"
    by (simp add: w'_def)
  moreover have "exposure_count (variations w' ! idx) = exposure_count (variations w ! idx) + 1"
    by (simp add: w'_def exposure_count_incremented[OF i])
  moreover have "heap w' = heap w" by (simp add: w'_def hp)
  ultimately show ?thesis using g by blast
qed

text \<open>The concrete experiment with resolvers that raise: the count of variation A is 11 afterwards.\<close>

theorem resolver_error_propagates_witness:
  "truthy (PyStr ''u1'') \<and> 2 \<le> length (variations unresolved_world) \<and>
   fst (select_variation_index demo_env unresolved_world) = Inr 0 \<and>
   fst (demo_call (Some accepting_tracker) unresolved_world) = Inl (RuntimeError ''resolver unavailable'') \<and>
   exposure_count (variations (snd (demo_call (Some accepting_tracker) unresolved_world)) ! 0) = 11"
proof -
  have u: "truthy (PyStr ''u1'')" by simp
  have n: "2 \<le> length (variations unresolved_world)"
    by (simp add: unresolved_world_def demo_variations_def)
  obtain w1 where s: "select_variation_index demo_env unresolved_world = (Inr 0, w1)"
    using unresolved_select by (cases "select_variation_index demo_env unresolved_world") simp
  have r: "resolver (variations unresolved_world ! 0)
              \<lparr>rp_user_id = PyStr ''u1'', rp_product_id = PyNone,
               rp_product_list = PyNone, rp_num_results = PyInt 3,
               rp_filter_values = PyNone, rp_context = PyNone,
               rp_promotion = PyNone\<rparr> (heap unresolved_world) = Inl (RuntimeError ''resolver unavailable'')"
    by (simp add: unresolved_world_def demo_variations_def failing_resolver_def)
  have e: "exposure_count (variations unresolved_world ! 0) = 10"
    by (simp add: unresolved_world_def demo_variations_def exposure_count_def count_of_def dict_get_def)
  from resolver_error_propagates[OF u n s r, where tracker = "Some accepting_tracker" and timestamp = None]
  obtain w' where
    g: "get_items demo_env (PyStr ''u1'') PyNone PyNone (PyInt 3) (Some accepting_tracker) PyNone PyNone
          None PyNone unresolved_world = (Inl (RuntimeError ''resolver unavailable''), w')"
    and x: "exposure_count (variations w' ! 0) = exposure_count (variations unresolved_world ! 0) + 1"
    by (elim exE conjE) (rule that)
  from g x e have "fst (demo_call (Some accepting_tracker) unresolved_world) = Inl (RuntimeError ''resolver unavailable'')"
    and "exposure_count (variations (snd (demo_call (Some accepting_tracker) unresolved_world)) ! 0) = 11"
    by (simp_all add: demo_call_def)
  with u n unresolved_select show ?thesis by blast
qed

section \<open>Emitting the exposure event\<close>





section \<open>The telemetry snapshot\<close>

text \<open>
  C5. Whatever \<open>log_table.put_item\<close> does (return, raise a \<open>ClientError\<close>, raise any
  other \<open>Exception\<close>), \<open>_select_variation_index\<close> gives the same result, and
  \<open>get_items\<close> gives the same result (the same items or the same exception), the same
  item objects, the same counts and the same calls: the exception of a failed write is
  caught in \<open>_log_experiment_data\<close> and only changes the table and the log lines.
\<close>

theorem snapshot_failure_discarded:
  "fst (select_variation_index (env\<lparr>put_item := f\<rparr>) w) = fst (select_variation_index env w) \<and>
   fst (get_items (env\<lparr>put_item := f\<rparr>) user_id current_item_id item_list num_results tracker
          filter_values context timestamp promotion w) =
     fst (get_items env user_id current_item_id item_list num_results tracker
            filter_values context timestamp promotion w) \<and>
   heap (snd (get_items (env\<lparr>put_item := f\<rparr>) user_id current_item_id item_list num_results tracker
          filter_values context timestamp promotion w)) =
     heap (snd (get_items env user_id current_item_id item_list num_results tracker
            filter_values context timestamp promotion w)) \<and>
   variations (snd (get_items (env\<lparr>put_item := f\<rparr>) user_id current_item_id item_list num_results tracker
          filter_values context timestamp promotion w)) =
     variations (snd (get_items env user_id current_item_id item_list num_results tracker
            filter_values context timestamp promotion w)) \<and>
   calls (snd (get_items (env\<lparr>put_item := f\<rparr>) user_id current_item_id item_list num_results tracker
          filter_values context timestamp promotion w)) =
     calls (snd (get_items env user_id current_item_id item_list num_results tracker
            filter_values context timestamp promotion w))"
proof -
  obtain lt lg where
    "select_variation_index (env\<lparr>put_item := f\<rparr>) w =
       (fst (select_variation_index env w),
        (snd (select_variation_index env w))\<lparr>log_table := lt, logged := lg\<rparr>)"
    using select_variation_index_put_item[where env = env and f = f and w = w] by blast
  then have a: "fst (select_variation_index (env\<lparr>put_item := f\<rparr>) w) = fst (select_variation_index env w)"
    by simp
  obtain lt' lg' where
    g: "get_items (env\<lparr>put_item := f\<rparr>) user_id current_item_id item_list num_results tracker
         filter_values context timestamp promotion w =
       (fst (get_items env user_id current_item_id item_list num_results tracker
               filter_values context timestamp promotion w),
        (snd (get_items env user_id current_item_id item_list num_results tracker
               filter_values context timestamp promotion w))\<lparr>log_table := lt', logged := lg'\<rparr>)"
    using get_items_put_item[where env = env and f = f and w = w] by blast
  show ?thesis by (simp add: a g)
qed

text \<open>The concrete experiment with a table that always raises: index 0 and the three items.\<close>

theorem snapshot_failure_discarded_witness:
  "fst (get_items (demo_env\<lparr>put_item := (\<lambda>s. Some (ClientError ''throttled''))\<rparr>) (PyStr ''u1'') PyNone PyNone
          (PyInt 3) None PyNone PyNone None PyNone demo_world) = Inr [0, 1, 2] \<and>
   fst (select_variation_index (demo_env\<lparr>put_item := (\<lambda>s. Some (ClientError ''throttled''))\<rparr>) demo_world) = Inr 0"
  using snapshot_failure_discarded[where env = demo_env and f = "\<lambda>s. Some (ClientError ''throttled'')"
          and w = demo_world and user_id = "PyStr ''u1''" and current_item_id = PyNone
          and item_list = PyNone and num_results = "PyInt 3" and tracker = None
          and filter_values = PyNone and timestamp = None and promotion = PyNone, of PyNone]
        demo_call_fst demo_select
  by (simp add: demo_call_def)

end
